theory Spec2Isabelle
  imports Main "HOL-Library.Sublist"
begin

section \<open>The graph description built by the diagram script\<close>

text \<open>
  The repository is one Python script,
  \<^verbatim>\<open>event-driven_scp_attachment_architecture_diagram.py\<close>. It opens a
  \<^verbatim>\<open>with Diagram(...)\<close> block, opens three \<^verbatim>\<open>with Cluster(...)\<close>
  blocks in it, creates two nodes in each, and connects nodes with the operators
  \<^verbatim>\<open>-\<close> and \<^verbatim>\<open>>>\<close> around an \<^verbatim>\<open>Edge(...)\<close> object. Leaving the
  \<^verbatim>\<open>Diagram\<close> block renders the graph.

  The script is modelled as the list of its statements, each a function from the
  interpreter state to an error or the next state. The classes \<^verbatim>\<open>Diagram\<close>,
  \<^verbatim>\<open>Cluster\<close>, \<^verbatim>\<open>Edge\<close> and the node classes come from the imported
  package \<^verbatim>\<open>diagrams\<close>, which is not part of the repository: the operations
  below give the meaning of the calls the script makes (what is added to the graph
  description, and when an exception is raised), and leave two things as parameters:
  the identifiers the package draws for new nodes, and what the rendering backend
  does to the outside world.
\<close>

type_synonym nid = nat

type_synonym attrs = "(string \<times> string) list"

datatype icon = Organizations | OrganizationsAccount | Cloudtrail | S3 | Eventbridge | Lambda

record node =
  nodeid :: nid
  n_icon :: icon
  n_label :: string

text \<open>An edge of the graph description: the identifiers of its two ends and its attributes.\<close>

record dot_edge =
  tail_id :: nid
  head_id :: nid
  e_attrs :: attrs

text \<open>A cluster is a subgraph: a label, its nodes, and the clusters nested in it.\<close>

datatype cluster = Subgraph (c_label: string) (c_nodes: "node list") (c_subs: "cluster list")

record diagram =
  d_name :: string
  d_show :: bool
  d_outformat :: string
  d_rankdir :: string
  d_nodes :: "node list"
  d_clusters :: "cluster list"
  d_edges :: "dot_edge list"

text \<open>
  An \<^verbatim>\<open>Edge\<close> object before it is connected: the node on its left (if any), the two
  direction flags and the attributes given to the constructor.
\<close>

record edge =
  e_node :: "nid option"
  forward :: bool
  reverse :: bool
  kw_attrs :: attrs

datatype error = ValueError string | EnvironmentError string | NameError string

text \<open>
  What a run does, in order: the journal is a ghost field that records each call that
  creates a part of the graph and each call of the renderer, with the graph it is given.
\<close>

datatype event =
    New_Diagram string
  | New_Cluster string
  | New_Node nid
  | New_Edge nid nid
  | Render diagram

text \<open>The part of the outside world a run could read or change.\<close>

record world =
  argv :: "string list"
  environ :: "(string \<times> string) list"
  files :: "string list"
  viewed :: "string list"

text \<open>
  The interpreter state: the package's two context variables (the open diagram and the
  stack of open clusters, innermost first), the script's global variables, the number of
  node identifiers drawn so far, the journal and the world.
\<close>

record interp =
  cur_diagram :: "diagram option"
  cur_cluster :: "cluster list"
  globals :: "(string \<times> node) list"
  drawn :: nat
  journal :: "event list"
  os :: world

type_synonym stmt = "interp \<Rightarrow> error + interp"

definition initial :: "world \<Rightarrow> interp" where
  "initial w = \<lparr>cur_diagram = None, cur_cluster = [], globals = [], drawn = 0,
     journal = [], os = w\<rparr>"

subsection \<open>The calls of the package\<close>

definition directions :: "string list" where
  "directions = [''TB'', ''BT'', ''LR'', ''RL'']"

text \<open>
  \<^verbatim>\<open>with Diagram(name, show=..., direction=...):\<close> on entry. The constructor refuses
  a direction that is not one of the four; the output format is the default one.
\<close>

definition Diagram_enter :: "string \<Rightarrow> bool \<Rightarrow> string \<Rightarrow> stmt" where
  "Diagram_enter name view direction s =
     (if direction \<in> set directions
      then Inr (s\<lparr>cur_diagram := Some \<lparr>d_name = name, d_show = view, d_outformat = ''png'',
                      d_rankdir = direction, d_nodes = [], d_clusters = [], d_edges = []\<rparr>,
                  journal := journal s @ [New_Diagram name]\<rparr>)
      else Inl (ValueError direction))"

text \<open>
  Leaving the \<^verbatim>\<open>Diagram\<close> block: the graph is handed to the rendering backend
  \<open>be\<close>, and the diagram context is cleared.
\<close>

definition Diagram_exit :: "(diagram \<Rightarrow> world \<Rightarrow> world) \<Rightarrow> stmt" where
  "Diagram_exit be s =
     (case cur_diagram s of
        None \<Rightarrow> Inl (EnvironmentError ''Global diagrams context not set up'')
      | Some d \<Rightarrow> Inr (s\<lparr>cur_diagram := None, journal := journal s @ [Render d],
                         os := be d (os s)\<rparr>))"

text \<open>\<^verbatim>\<open>with Cluster(label):\<close> on entry: a new, empty subgraph becomes the current cluster.\<close>

definition Cluster_enter :: "string \<Rightarrow> stmt" where
  "Cluster_enter lbl s =
     (case cur_diagram s of
        None \<Rightarrow> Inl (EnvironmentError ''Global diagrams context not set up'')
      | Some d \<Rightarrow> Inr (s\<lparr>cur_cluster := Subgraph lbl [] [] # cur_cluster s,
                         journal := journal s @ [New_Cluster lbl]\<rparr>))"

text \<open>
  Leaving a \<^verbatim>\<open>Cluster\<close> block: the finished subgraph is added to its parent
  cluster, or to the diagram when it has no parent.
\<close>

definition Cluster_exit :: stmt where
  "Cluster_exit s =
     (case cur_diagram s of
        None \<Rightarrow> Inl (EnvironmentError ''Global diagrams context not set up'')
      | Some d \<Rightarrow>
         (case cur_cluster s of
            [] \<Rightarrow> Inl (EnvironmentError ''no cluster is open'')
          | [c] \<Rightarrow> Inr (s\<lparr>cur_diagram := Some (d\<lparr>d_clusters := d_clusters d @ [c]\<rparr>),
                           cur_cluster := []\<rparr>)
          | c # p # cs \<Rightarrow>
              Inr (s\<lparr>cur_cluster :=
                     Subgraph (c_label p) (c_nodes p) (c_subs p @ [c]) # cs\<rparr>)))"

text \<open>
  A node constructor, \<^verbatim>\<open>Organizations(label)\<close> and the like: it needs an open
  diagram, draws the next identifier from \<open>ids\<close>, and adds the node to the current
  cluster, or to the diagram when no cluster is open.
\<close>

definition Node_init :: "(nat \<Rightarrow> nid) \<Rightarrow> icon \<Rightarrow> string \<Rightarrow> interp \<Rightarrow> error + node \<times> interp" where
  "Node_init ids ic lbl s =
     (case cur_diagram s of
        None \<Rightarrow> Inl (EnvironmentError ''Global diagrams context not set up'')
      | Some d \<Rightarrow>
         (let n = \<lparr>nodeid = ids (drawn s), n_icon = ic, n_label = lbl\<rparr>;
              s' = s\<lparr>drawn := Suc (drawn s), journal := journal s @ [New_Node (nodeid n)]\<rparr>
          in case cur_cluster s of
               [] \<Rightarrow> Inr (n, s'\<lparr>cur_diagram := Some (d\<lparr>d_nodes := d_nodes d @ [n]\<rparr>)\<rparr>)
             | c # cs \<Rightarrow>
                 Inr (n, s'\<lparr>cur_cluster :=
                             Subgraph (c_label c) (c_nodes c @ [n]) (c_subs c) # cs\<rparr>)))"

text \<open>
  \<^verbatim>\<open>Edge(**kwargs)\<close>: the keyword arguments \<^verbatim>\<open>label\<close>, \<^verbatim>\<open>color\<close> and
  \<^verbatim>\<open>style\<close> are kept when they are not empty, any other attribute is kept as it is.
  The script never passes \<^verbatim>\<open>node\<close>, \<^verbatim>\<open>forward\<close> or \<^verbatim>\<open>reverse\<close>, which stay
  at their defaults.
\<close>

definition named_attrs :: "string list" where
  "named_attrs = [''label'', ''color'', ''style'']"

definition Edge_init :: "attrs \<Rightarrow> edge" where
  "Edge_init kwargs = \<lparr>e_node = None, forward = False, reverse = False,
     kw_attrs = filter (\<lambda>(k, v). \<not> (k \<in> set named_attrs \<and> v = [])) kwargs\<rparr>"

text \<open>The \<^verbatim>\<open>dir\<close> attribute an edge is drawn with.\<close>

definition edge_dir :: "edge \<Rightarrow> string" where
  "edge_dir e =
     (if forward e \<and> reverse e then ''both''
      else if forward e then ''forward''
      else if reverse e then ''back''
      else ''none'')"

text \<open>\<^verbatim>\<open>node - edge\<close> and \<^verbatim>\<open>node >> edge\<close>: the edge remembers the node on its left.\<close>

definition Node_sub :: "node \<Rightarrow> edge \<Rightarrow> edge" where
  "Node_sub n e = e\<lparr>e_node := Some (nodeid n)\<rparr>"

definition Node_rshift :: "node \<Rightarrow> edge \<Rightarrow> edge" where
  "Node_rshift n e = e\<lparr>forward := True, e_node := Some (nodeid n)\<rparr>"

text \<open>
  Connecting adds the edge to the diagram itself, never to a cluster, with the
  attributes of the \<^verbatim>\<open>Edge\<close> object and its direction.
\<close>

definition Diagram_connect :: "nid \<Rightarrow> nid \<Rightarrow> edge \<Rightarrow> stmt" where
  "Diagram_connect a b e s =
     (case cur_diagram s of
        None \<Rightarrow> Inl (EnvironmentError ''Global diagrams context not set up'')
      | Some d \<Rightarrow>
          Inr (s\<lparr>cur_diagram := Some (d\<lparr>d_edges := d_edges d @
                    [\<lparr>tail_id = a, head_id = b,
                      e_attrs = kw_attrs e @ [(''dir'', edge_dir e)]\<rparr>]\<rparr>),
                 journal := journal s @ [New_Edge a b]\<rparr>))"

text \<open>
  \<^verbatim>\<open>edge - node\<close> and \<^verbatim>\<open>edge >> node\<close>: an edge that has a node on its left is
  connected to the node on its right; one that has none only remembers the node, and
  the graph is unchanged.
\<close>

definition Edge_connect :: "edge \<Rightarrow> node \<Rightarrow> stmt" where
  "Edge_connect e n s =
     (case e_node e of
        None \<Rightarrow> Inr s
      | Some a \<Rightarrow> Diagram_connect a (nodeid n) e s)"

definition Edge_sub :: "edge \<Rightarrow> node \<Rightarrow> stmt" where
  "Edge_sub e n = Edge_connect e n"

definition Edge_rshift :: "edge \<Rightarrow> node \<Rightarrow> stmt" where
  "Edge_rshift e n = Edge_connect (e\<lparr>forward := True\<rparr>) n"

subsection \<open>Statements\<close>

text \<open>\<^verbatim>\<open>x = Node(...)\<close>: the new node is bound to the global variable \<open>x\<close>.\<close>

definition assign :: "string \<Rightarrow> (interp \<Rightarrow> error + node \<times> interp) \<Rightarrow> stmt" where
  "assign x mk s =
     (case mk s of
        Inl err \<Rightarrow> Inl err
      | Inr (n, s') \<Rightarrow> Inr (s'\<lparr>globals := (x, n) # globals s'\<rparr>))"

text \<open>\<^verbatim>\<open>x - e - y\<close> and \<^verbatim>\<open>x >> e >> y\<close>, read from left to right as Python does.\<close>

definition stmt_sub :: "string \<Rightarrow> edge \<Rightarrow> string \<Rightarrow> stmt" where
  "stmt_sub x e y s =
     (case map_of (globals s) x of
        None \<Rightarrow> Inl (NameError x)
      | Some a \<Rightarrow>
         (case map_of (globals s) y of
            None \<Rightarrow> Inl (NameError y)
          | Some b \<Rightarrow> Edge_sub (Node_sub a e) b s))"

definition stmt_rshift :: "string \<Rightarrow> edge \<Rightarrow> string \<Rightarrow> stmt" where
  "stmt_rshift x e y s =
     (case map_of (globals s) x of
        None \<Rightarrow> Inl (NameError x)
      | Some a \<Rightarrow>
         (case map_of (globals s) y of
            None \<Rightarrow> Inl (NameError y)
          | Some b \<Rightarrow> Edge_rshift (Node_rshift a e) b s))"

text \<open>Statements run one after the other; the first exception ends the run.\<close>

fun run :: "stmt list \<Rightarrow> interp \<Rightarrow> error + interp" where
  "run [] s = Inr s"
| "run (f # fs) s = (case f s of Inl err \<Rightarrow> Inl err | Inr s' \<Rightarrow> run fs s')"

subsection \<open>The script\<close>

definition title :: string where
  "title = ''Event-Driven SCP Attachment Architecture Diagram''"

definition script :: "(diagram \<Rightarrow> world \<Rightarrow> world) \<Rightarrow> (nat \<Rightarrow> nid) \<Rightarrow> stmt list" where
  "script be ids =
    [Diagram_enter title False ''LR'',
     Cluster_enter ''AWS Organization\<newline>(Source)'',
     assign ''org'' (Node_init ids Organizations ''Organization Unit\<newline>(SCP Policies)''),
     assign ''new_account'' (Node_init ids OrganizationsAccount ''New Account\<newline>(Create/Join)''),
     stmt_sub ''new_account''
       (Edge_init [(''style'', ''dashed''), (''label'', ''Membership\<newline>Request'')]) ''org'',
     Cluster_exit,
     Cluster_enter ''Event Collection'',
     assign ''cloudtrail'' (Node_init ids Cloudtrail ''CloudTrail\<newline>(Management Events)''),
     assign ''s3'' (Node_init ids S3 ''Log Storage\<newline>(S3 Bucket)''),
     stmt_sub ''cloudtrail'' (Edge_init [(''style'', ''dashed'')]) ''s3'',
     Cluster_exit,
     Cluster_enter ''Event Processing\<newline>(Automation)'',
     assign ''event_bridge'' (Node_init ids Eventbridge ''EventBridge\<newline>(AcceptHandshake Rule)''),
     assign ''lambda_func'' (Node_init ids Lambda ''SCP Attachment\<newline>Lambda Function''),
     stmt_rshift ''event_bridge''
       (Edge_init [(''color'', ''green4''), (''label'', ''Trigger'')]) ''lambda_func'',
     Cluster_exit,
     stmt_rshift ''org'' (Edge_init [(''label'', ''1. Record\<newline>Org Events'')]) ''cloudtrail'',
     stmt_rshift ''cloudtrail''
       (Edge_init [(''label'', ''2. Forward\<newline>AcceptHandshake'')]) ''event_bridge'',
     stmt_rshift ''lambda_func''
       (Edge_init [(''color'', ''red''), (''label'', ''3. Apply SCP\<newline>Policies'')]) ''org'',
     stmt_sub ''new_account'' (Edge_init [(''style'', ''invis'')]) ''cloudtrail'',
     stmt_sub ''s3'' (Edge_init [(''style'', ''invis'')]) ''event_bridge'',
     Diagram_exit be]"

definition main :: "(diagram \<Rightarrow> world \<Rightarrow> world) \<Rightarrow> (nat \<Rightarrow> nid) \<Rightarrow> world \<Rightarrow> error + interp" where
  "main be ids w = run (script be ids) (initial w)"

text \<open>The states a run goes through: the state before each statement, and the last one.\<close>

fun states :: "stmt list \<Rightarrow> interp \<Rightarrow> interp list" where
  "states [] s = [s]"
| "states (f # fs) s = s # (case f s of Inl err \<Rightarrow> [] | Inr s' \<Rightarrow> states fs s')"

subsection \<open>What is observed of a run\<close>

text \<open>The graphs given to the renderer, in order.\<close>

fun renders :: "event list \<Rightarrow> diagram list" where
  "renders [] = []"
| "renders (Render d # evs) = d # renders evs"
| "renders (ev # evs) = renders evs"

definition rendered :: "error + interp \<Rightarrow> diagram list" where
  "rendered r = (case r of Inl err \<Rightarrow> [] | Inr s \<Rightarrow> renders (journal s))"

fun is_Render :: "event \<Rightarrow> bool" where
  "is_Render (Render d) = True"
| "is_Render ev = False"

fun is_New_Diagram :: "event \<Rightarrow> bool" where
  "is_New_Diagram (New_Diagram n) = True"
| "is_New_Diagram ev = False"

text \<open>The nodes of a cluster, those of nested clusters included, and the nodes of a diagram.\<close>

fun members :: "cluster \<Rightarrow> node list" where
  "members (Subgraph l ns cs) = ns @ concat (map members cs)"

definition all_nodes :: "diagram \<Rightarrow> node list" where
  "all_nodes d = d_nodes d @ concat (map members (d_clusters d))"

definition node_at :: "diagram \<Rightarrow> nid \<Rightarrow> node option" where
  "node_at d i = find (\<lambda>n. nodeid n = i) (all_nodes d)"

text \<open>The two ends of an edge, named by the class of the node found under each identifier.\<close>

definition ends :: "diagram \<Rightarrow> dot_edge \<Rightarrow> icon option \<times> icon option" where
  "ends d e = (map_option n_icon (node_at d (tail_id e)), map_option n_icon (node_at d (head_id e)))"

text \<open>The value of an attribute of an edge, empty when the edge does not have it.\<close>

definition attr :: "string \<Rightarrow> dot_edge \<Rightarrow> string" where
  "attr k e = (case map_of (e_attrs e) k of None \<Rightarrow> [] | Some v \<Rightarrow> v)"

definition directed :: "dot_edge \<Rightarrow> bool" where
  "directed e = (attr ''dir'' e \<in> set [''forward'', ''back'', ''both''])"

definition undirected :: "dot_edge \<Rightarrow> bool" where
  "undirected e = (attr ''dir'' e = ''none'')"

definition invisible :: "dot_edge \<Rightarrow> bool" where
  "invisible e = (attr ''style'' e = ''invis'')"

text \<open>The clusters of a diagram that hold a node, and the label of the first of them.\<close>

definition clusters_holding :: "diagram \<Rightarrow> nid \<Rightarrow> cluster list" where
  "clusters_holding d i = filter (\<lambda>c. i \<in> set (map nodeid (members c))) (d_clusters d)"

definition cluster_of :: "diagram \<Rightarrow> nid \<Rightarrow> string option" where
  "cluster_of d i = map_option c_label (find (\<lambda>c. i \<in> set (map nodeid (members c))) (d_clusters d))"

text \<open>A label on one line: the line breaks of a label read as spaces.\<close>

definition one_line :: "string \<Rightarrow> string" where
  "one_line l = map (\<lambda>c. if c = CHR 0x0A then CHR '' '' else c) l"

text \<open>The ordering mark a label starts with, a digit and a full stop; empty when it has none.\<close>

definition order_label :: "dot_edge \<Rightarrow> string" where
  "order_label e =
     (let l = attr ''label'' e
      in if 2 \<le> length l \<and> hd l \<in> set ''0123456789'' \<and> l ! 1 = CHR ''.'' then take 2 l else [])"

definition numbered :: "dot_edge \<Rightarrow> bool" where
  "numbered e = (order_label e \<noteq> [])"

text \<open>An edge joins two nodes when both identifiers are nodes of the diagram, and differ.\<close>

definition joins_two :: "diagram \<Rightarrow> dot_edge \<Rightarrow> bool" where
  "joins_two d e =
     (node_at d (tail_id e) \<noteq> None \<and> node_at d (head_id e) \<noteq> None \<and> tail_id e \<noteq> head_id e)"

definition style_attrs_only :: "dot_edge \<Rightarrow> bool" where
  "style_attrs_only e =
     list_all (\<lambda>k. k \<in> set [''style'', ''color'', ''label'', ''dir'']) (map fst (e_attrs e))"

text \<open>A flow edge between clusters: a directed edge whose ends lie in different clusters.\<close>

definition flow_between_clusters :: "diagram \<Rightarrow> dot_edge \<Rightarrow> bool" where
  "flow_between_clusters d e =
     (directed e \<and> cluster_of d (tail_id e) \<noteq> cluster_of d (head_id e))"

text \<open>The flow of a diagram: the pairs of identifiers its directed edges connect.\<close>

definition flow :: "diagram \<Rightarrow> (nid \<times> nid) list" where
  "flow d = map (\<lambda>e. (tail_id e, head_id e)) (filter directed (d_edges d))"

definition without_invisible :: "diagram \<Rightarrow> diagram" where
  "without_invisible d = d\<lparr>d_edges := filter (\<lambda>e. \<not> invisible e) (d_edges d)\<rparr>"

text \<open>
  A list of edges is a cycle when each edge ends where the next begins, the last ends
  where the first begins, and no node is left twice.
\<close>

fun chain :: "('a \<times> 'a) list \<Rightarrow> bool" where
  "chain [] = True"
| "chain [e] = True"
| "chain (e # f # es) = (snd e = fst f \<and> chain (f # es))"

definition cycle :: "('a \<times> 'a) list \<Rightarrow> bool" where
  "cycle es = (es \<noteq> [] \<and> chain es \<and> snd (last es) = fst (hd es) \<and> distinct (map fst es))"

text \<open>
  The description of a graph with the node identifiers left out: the diagram's
  settings, the nodes and clusters by class and label, and each edge by the nodes found
  at its ends and its attributes.
\<close>

datatype cluster_view = Cluster_view string "(icon \<times> string) list" "cluster_view list"

definition nview :: "node \<Rightarrow> icon \<times> string" where
  "nview n = (n_icon n, n_label n)"

fun cview :: "cluster \<Rightarrow> cluster_view" where
  "cview (Subgraph l ns cs) = Cluster_view l (map nview ns) (map cview cs)"

definition eview :: "diagram \<Rightarrow> dot_edge \<Rightarrow> (icon \<times> string) option \<times> (icon \<times> string) option \<times> attrs" where
  "eview d e =
     (map_option nview (node_at d (tail_id e)), map_option nview (node_at d (head_id e)), e_attrs e)"

definition describe ::
  "diagram \<Rightarrow> (string \<times> bool \<times> string \<times> string) \<times> (icon \<times> string) list \<times> cluster_view list
     \<times> ((icon \<times> string) option \<times> (icon \<times> string) option \<times> attrs) list" where
  "describe d =
     ((d_name d, d_show d, d_outformat d, d_rankdir d), map nview (d_nodes d),
      map cview (d_clusters d), map (eview d) (d_edges d))"

text \<open>
  The parts of the graph a state holds while the graph is built: the nodes outside
  clusters, the finished clusters, the nodes put in clusters (finished or still open),
  and the edges. A state grows into the next when each of these lists is only extended.
\<close>

definition top_nodes :: "interp \<Rightarrow> node list" where
  "top_nodes s = (case cur_diagram s of None \<Rightarrow> [] | Some d \<Rightarrow> d_nodes d)"

definition closed_clusters :: "interp \<Rightarrow> cluster list" where
  "closed_clusters s = (case cur_diagram s of None \<Rightarrow> [] | Some d \<Rightarrow> d_clusters d)"

definition clustered :: "interp \<Rightarrow> node list" where
  "clustered s =
     concat (map members (closed_clusters s)) @ concat (map members (rev (cur_cluster s)))"

definition edges_so_far :: "interp \<Rightarrow> dot_edge list" where
  "edges_so_far s = (case cur_diagram s of None \<Rightarrow> [] | Some d \<Rightarrow> d_edges d)"

definition grows :: "interp \<Rightarrow> interp \<Rightarrow> bool" where
  "grows s s' =
     (prefix (top_nodes s) (top_nodes s') \<and> prefix (closed_clusters s) (closed_clusters s') \<and>
      prefix (clustered s) (clustered s') \<and> prefix (edges_so_far s) (edges_so_far s'))"

subsection \<open>The rendering backend\<close>

text \<open>
  Modelled from the spec: the rendering backend (the imported package \<^verbatim>\<open>diagrams\<close>
  and the graph layout tool it calls) is not among the repository's files. The spec says
  that it "lays out and exports an image", that there is "no observable side effect
  besides writing an image file to disk", and that the "sole output is a static image
  file named after the diagram title". The function \<open>image_name\<close> that derives the file
  name from the title is a parameter. The file is shown in a viewer only when the
  diagram was made with \<^verbatim>\<open>show=True\<close>, which is what that argument is for.
\<close>

definition export_image :: "(string \<Rightarrow> string) \<Rightarrow> diagram \<Rightarrow> world \<Rightarrow> world" where
  "export_image image_name d w =
     w\<lparr>files := files w @ [image_name (d_name d)],
       viewed := viewed w @ (if d_show d then [image_name (d_name d)] else [])\<rparr>"

subsection \<open>The graph the script builds, written out\<close>

definition built :: "(nat \<Rightarrow> nid) \<Rightarrow> diagram" where
  "built ids =
    \<lparr>d_name = ''Event-Driven SCP Attachment Architecture Diagram'', d_show = False,
      d_outformat = ''png'', d_rankdir = ''LR'', d_nodes = [],
      d_clusters =
        [Subgraph ''AWS Organization\<newline>(Source)''
           [\<lparr>nodeid = ids 0, n_icon = Organizations, n_label = ''Organization Unit\<newline>(SCP Policies)''\<rparr>,
            \<lparr>nodeid = ids 1, n_icon = OrganizationsAccount, n_label = ''New Account\<newline>(Create/Join)''\<rparr>] [],
         Subgraph ''Event Collection''
           [\<lparr>nodeid = ids 2, n_icon = Cloudtrail, n_label = ''CloudTrail\<newline>(Management Events)''\<rparr>,
            \<lparr>nodeid = ids 3, n_icon = S3, n_label = ''Log Storage\<newline>(S3 Bucket)''\<rparr>] [],
         Subgraph ''Event Processing\<newline>(Automation)''
           [\<lparr>nodeid = ids 4, n_icon = Eventbridge, n_label = ''EventBridge\<newline>(AcceptHandshake Rule)''\<rparr>,
            \<lparr>nodeid = ids 5, n_icon = Lambda, n_label = ''SCP Attachment\<newline>Lambda Function''\<rparr>] []],
      d_edges =
        [\<lparr>tail_id = ids 1, head_id = ids 0,
           e_attrs = [(''style'', ''dashed''), (''label'', ''Membership\<newline>Request''), (''dir'', ''none'')]\<rparr>,
         \<lparr>tail_id = ids 2, head_id = ids 3,
           e_attrs = [(''style'', ''dashed''), (''dir'', ''none'')]\<rparr>,
         \<lparr>tail_id = ids 4, head_id = ids 5,
           e_attrs = [(''color'', ''green4''), (''label'', ''Trigger''), (''dir'', ''forward'')]\<rparr>,
         \<lparr>tail_id = ids 0, head_id = ids 2,
           e_attrs = [(''label'', ''1. Record\<newline>Org Events''), (''dir'', ''forward'')]\<rparr>,
         \<lparr>tail_id = ids 2, head_id = ids 4,
           e_attrs = [(''label'', ''2. Forward\<newline>AcceptHandshake''), (''dir'', ''forward'')]\<rparr>,
         \<lparr>tail_id = ids 5, head_id = ids 0,
           e_attrs = [(''color'', ''red''), (''label'', ''3. Apply SCP\<newline>Policies''), (''dir'', ''forward'')]\<rparr>,
         \<lparr>tail_id = ids 1, head_id = ids 2,
           e_attrs = [(''style'', ''invis''), (''dir'', ''none'')]\<rparr>,
         \<lparr>tail_id = ids 3, head_id = ids 4,
           e_attrs = [(''style'', ''invis''), (''dir'', ''none'')]\<rparr>]\<rparr>"

section \<open>Running the script\<close>

lemmas api_defs =
  Diagram_enter_def Diagram_exit_def Cluster_enter_def Cluster_exit_def Node_init_def
  Edge_init_def edge_dir_def Node_sub_def Node_rshift_def Diagram_connect_def Edge_connect_def
  Edge_sub_def Edge_rshift_def assign_def stmt_sub_def stmt_rshift_def directions_def
  named_attrs_def initial_def title_def

text \<open>The run ends without an exception, in a state that is known in full.\<close>

lemma main_final:
  "main be ids w =
     Inr \<lparr>cur_diagram = None, cur_cluster = [],
          globals = [(''lambda_func'', \<lparr>nodeid = ids 5, n_icon = Lambda, n_label = ''SCP Attachment\<newline>Lambda Function''\<rparr>),
                     (''event_bridge'', \<lparr>nodeid = ids 4, n_icon = Eventbridge, n_label = ''EventBridge\<newline>(AcceptHandshake Rule)''\<rparr>),
                     (''s3'', \<lparr>nodeid = ids 3, n_icon = S3, n_label = ''Log Storage\<newline>(S3 Bucket)''\<rparr>),
                     (''cloudtrail'', \<lparr>nodeid = ids 2, n_icon = Cloudtrail, n_label = ''CloudTrail\<newline>(Management Events)''\<rparr>),
                     (''new_account'', \<lparr>nodeid = ids 1, n_icon = OrganizationsAccount, n_label = ''New Account\<newline>(Create/Join)''\<rparr>),
                     (''org'', \<lparr>nodeid = ids 0, n_icon = Organizations, n_label = ''Organization Unit\<newline>(SCP Policies)''\<rparr>)],
          drawn = 6,
          journal =
            [New_Diagram title,
             New_Cluster ''AWS Organization\<newline>(Source)'', New_Node (ids 0), New_Node (ids 1),
             New_Edge (ids 1) (ids 0),
             New_Cluster ''Event Collection'', New_Node (ids 2), New_Node (ids 3),
             New_Edge (ids 2) (ids 3),
             New_Cluster ''Event Processing\<newline>(Automation)'', New_Node (ids 4), New_Node (ids 5),
             New_Edge (ids 4) (ids 5),
             New_Edge (ids 0) (ids 2), New_Edge (ids 2) (ids 4), New_Edge (ids 5) (ids 0),
             New_Edge (ids 1) (ids 2), New_Edge (ids 3) (ids 4),
             Render (built ids)],
          os = be (built ids) w\<rparr>"
  unfolding main_def script_def built_def
  by (simp add: api_defs Let_def eval_nat_numeral)

lemma rendered_main: "rendered (main be ids w) = [built ids]"
  by (simp add: main_final rendered_def)

lemmas obs_defs =
  all_nodes_def node_at_def ends_def attr_def directed_def undirected_def invisible_def
  clusters_holding_def cluster_of_def one_line_def order_label_def numbered_def joins_two_def
  style_attrs_only_def flow_between_clusters_def flow_def without_invisible_def cycle_def
  nview_def eview_def describe_def

text \<open>A run that ends without an exception has gone through every statement once.\<close>

lemma states_length:
  "run fs s = Inr s' \<Longrightarrow> length (states fs s) = Suc (length fs) \<and> last (states fs s) = s'"
proof (induction fs arbitrary: s)
  case Nil
  then show ?case by simp
next
  case (Cons f fs)
  then obtain t where t: "f s = Inr t" and r: "run fs t = Inr s'"
    by (auto split: sum.splits)
  from Cons.IH[OF r] t show ?case
    by (cases fs) auto
qed

text \<open>
  The statements before the renderer is called, one state after the other: all of them
  are executed, each state grows into the next, and the last one holds the graph
  written out above.
\<close>

lemma construction_trace:
  "\<exists>tr. states (butlast (script be ids)) (initial w) = tr \<and> length tr = 22 \<and>
     cur_diagram (last tr) = Some (built ids) \<and> successively grows tr"
  unfolding script_def built_def
  by (simp add: api_defs Let_def eval_nat_numeral grows_def top_nodes_def closed_clusters_def
        clustered_def edges_so_far_def)

text \<open>With distinct identifiers the description of the graph does not depend on them.\<close>

lemma describe_built:
  assumes "inj ids"
  shows "describe (built ids) = describe (built (\<lambda>k. k))"
  by (simp add: built_def obs_defs inj_eq[OF assms])

section \<open>The claims\<close>

text \<open>
  C1. Running the script produces exactly one output artifact, an image file whose name
  is derived from the diagram title; the script reads no command-line arguments, no
  environment variables and no persisted state. With the backend of the spec, whatever
  the function \<open>image_name\<close> from titles to file names: the run ends normally, the files
  written are the one file \<open>image_name title\<close>, the arguments and the environment are
  left as they were, and from any two worlds \<open>w\<close> and \<open>w'\<close> the run does the same
  (the same journal) and writes the same file.
\<close>

theorem one_image_named_after_title:
  "\<exists>s s'. main (export_image image_name) ids w = Inr s \<and>
           main (export_image image_name) ids w' = Inr s' \<and>
           files (os s) = files w @ [image_name title] \<and>
           files (os s') = files w' @ [image_name title] \<and>
           journal s = journal s' \<and> argv (os s) = argv w \<and> environ (os s) = environ w"
  by (simp add: main_final export_image_def built_def title_def)

text \<open>
  C2. Any two executions of the script construct the same graph description: the same six
  nodes, the same three clusters and the same edges with the same labels, styles and
  colors. Two runs that draw the same node identifiers give the renderer the very same
  graph, whatever the backend and the world; two runs that draw different (distinct)
  identifiers give it graphs with the same description; and the graph has six nodes,
  three clusters and eight edges.
\<close>

theorem same_graph_every_run:
  assumes "inj ids" and "inj ids'"
  shows "rendered (main be ids w) = rendered (main be' ids w') \<and>
         map describe (rendered (main be ids w)) = map describe (rendered (main be' ids' w')) \<and>
         map (\<lambda>d. (length (all_nodes d), length (d_clusters d), length (d_edges d)))
           (rendered (main be ids w)) = [(6, 3, 8)]"
proof (intro conjI)
  show "rendered (main be ids w) = rendered (main be' ids w')"
    by (simp only: rendered_main)
  have "describe (built ids) = describe (built ids')"
    using describe_built[OF assms(1)] describe_built[OF assms(2)] by simp
  then show "map describe (rendered (main be ids w)) = map describe (rendered (main be' ids' w'))"
    by (simp add: rendered_main)
  show "map (\<lambda>d. (length (all_nodes d), length (d_clusters d), length (d_edges d)))
           (rendered (main be ids w)) = [(6, 3, 8)]"
    by (simp add: rendered_main built_def all_nodes_def)
qed

theorem same_graph_every_run_witness:
  "rendered (main (\<lambda>d w. w) Suc \<lparr>argv = [], environ = [], files = [], viewed = []\<rparr>) =
     rendered (main (\<lambda>d w. w\<lparr>files := []\<rparr>) Suc
       \<lparr>argv = [''-v''], environ = [(''HOME'', ''/root'')], files = [''a.png''], viewed = []\<rparr>) \<and>
   map describe
     (rendered (main (\<lambda>d w. w) Suc \<lparr>argv = [], environ = [], files = [], viewed = []\<rparr>)) =
     map describe (rendered (main (\<lambda>d w. w\<lparr>files := []\<rparr>) (\<lambda>k. k + 7)
       \<lparr>argv = [''-v''], environ = [(''HOME'', ''/root'')], files = [''a.png''], viewed = []\<rparr>)) \<and>
   map (\<lambda>d. (length (all_nodes d), length (d_clusters d), length (d_edges d)))
     (rendered (main (\<lambda>d w. w) Suc \<lparr>argv = [], environ = [], files = [], viewed = []\<rparr>)) =
     [(6, 3, 8)]"
proof -
  have a: "inj Suc" by simp
  have b: "inj (\<lambda>k::nat. k + 7)" by (simp add: inj_def)
  show ?thesis by (rule same_graph_every_run[OF a b])
qed

text \<open>
  C3. The graph is constructed once and rendered once, and nothing changes it after it
  is constructed. The run ends normally; its journal starts with the one construction
  of a diagram and ends with the one call of the renderer, so no statement comes after
  rendering and the diagram context is closed; the graph the renderer is given is the
  graph as it stands after the last statement of the block; and while the graph is
  built, every statement only extends it: each state of the run grows into the next.
\<close>

theorem built_once_rendered_once:
  "\<exists>s d. main be ids w = Inr s \<and> rendered (Inr s) = [d] \<and>
     filter is_New_Diagram (journal s) = [New_Diagram title] \<and> hd (journal s) = New_Diagram title \<and>
     filter is_Render (journal s) = [Render d] \<and> last (journal s) = Render d \<and>
     cur_diagram s = None \<and>
     length (states (butlast (script be ids)) (initial w)) = length (butlast (script be ids)) + 1 \<and>
     cur_diagram (last (states (butlast (script be ids)) (initial w))) = Some d \<and>
     successively grows (states (butlast (script be ids)) (initial w))"
proof -
  obtain s where s: "main be ids w = Inr s" and c: "cur_diagram s = None" and j: "journal s =
            [New_Diagram title,
             New_Cluster ''AWS Organization\<newline>(Source)'', New_Node (ids 0), New_Node (ids 1),
             New_Edge (ids 1) (ids 0),
             New_Cluster ''Event Collection'', New_Node (ids 2), New_Node (ids 3),
             New_Edge (ids 2) (ids 3),
             New_Cluster ''Event Processing\<newline>(Automation)'', New_Node (ids 4), New_Node (ids 5),
             New_Edge (ids 4) (ids 5),
             New_Edge (ids 0) (ids 2), New_Edge (ids 2) (ids 4), New_Edge (ids 5) (ids 0),
             New_Edge (ids 1) (ids 2), New_Edge (ids 3) (ids 4),
             Render (built ids)]"
    by (simp add: main_final)
  have n: "length (butlast (script be ids)) + 1 = 22"
    by (simp add: script_def)
  show ?thesis
  proof (intro exI[of _ s] exI[of _ "built ids"] conjI)
    show "main be ids w = Inr s" by (rule s)
    show "rendered (Inr s) = [built ids]" by (simp add: rendered_def j)
    show "filter is_New_Diagram (journal s) = [New_Diagram title]" by (simp add: j)
    show "hd (journal s) = New_Diagram title" by (simp add: j)
    show "filter is_Render (journal s) = [Render (built ids)]" by (simp add: j)
    show "last (journal s) = Render (built ids)" by (simp add: j)
    show "cur_diagram s = None" by (rule c)
    show "length (states (butlast (script be ids)) (initial w)) = length (butlast (script be ids)) + 1"
      using construction_trace[of be ids w] n by simp
    show "cur_diagram (last (states (butlast (script be ids)) (initial w))) = Some (built ids)"
      using construction_trace[of be ids w] by simp
    show "successively grows (states (butlast (script be ids)) (initial w))"
      using construction_trace[of be ids w] by simp
  qed
qed

text \<open>
  C4. Every edge of the script connects exactly two nodes and carries only style
  attributes (style, color, label); the ordering labels "1.", "2.", "3." are on exactly
  the three flow edges between clusters, in that order: Organizations to CloudTrail,
  CloudTrail to EventBridge, Lambda to Organizations. In the rendered graph every edge
  joins two different nodes of the graph; its attributes are among style, color and
  label, next to the direction the operator gave it; the style, when there is one, is
  dashed or invis; the edges whose label starts with an ordering mark are those three,
  with the marks in that order; and they are exactly the directed edges whose ends lie
  in different clusters.
\<close>

theorem edges_join_two_nodes_and_flow_is_numbered:
  assumes "inj ids"
  shows "\<exists>d. rendered (main be ids w) = [d] \<and>
     list_all (joins_two d) (d_edges d) \<and>
     list_all style_attrs_only (d_edges d) \<and>
     list_all (\<lambda>e. attr ''style'' e \<in> set [[], ''dashed'', ''invis'']) (d_edges d) \<and>
     map (\<lambda>e. (ends d e, order_label e)) (filter numbered (d_edges d)) =
       [((Some Organizations, Some Cloudtrail), ''1.''),
        ((Some Cloudtrail, Some Eventbridge), ''2.''),
        ((Some Lambda, Some Organizations), ''3.'')] \<and>
     filter numbered (d_edges d) = filter (flow_between_clusters d) (d_edges d)"
proof (intro exI[of _ "built ids"] conjI)
  note distinct_ids = inj_eq[OF assms]
  show "rendered (main be ids w) = [built ids]"
    by (rule rendered_main)
  show "list_all (joins_two (built ids)) (d_edges (built ids))"
    by (simp add: built_def joins_two_def node_at_def all_nodes_def distinct_ids)
  show "list_all style_attrs_only (d_edges (built ids))"
    by (simp add: built_def style_attrs_only_def)
  show "list_all (\<lambda>e. attr ''style'' e \<in> set [[], ''dashed'', ''invis'']) (d_edges (built ids))"
    by (simp add: built_def attr_def)
  show "map (\<lambda>e. (ends (built ids) e, order_label e)) (filter numbered (d_edges (built ids))) =
       [((Some Organizations, Some Cloudtrail), ''1.''),
        ((Some Cloudtrail, Some Eventbridge), ''2.''),
        ((Some Lambda, Some Organizations), ''3.'')]"
    by (simp add: built_def numbered_def order_label_def attr_def ends_def node_at_def
        all_nodes_def distinct_ids)
  show "filter numbered (d_edges (built ids)) =
        filter (flow_between_clusters (built ids)) (d_edges (built ids))"
    by (simp add: built_def numbered_def order_label_def attr_def flow_between_clusters_def
        directed_def cluster_of_def distinct_ids)
qed

theorem edges_join_two_nodes_and_flow_is_numbered_witness:
  "inj Suc \<and>
   (\<exists>d. rendered (main (\<lambda>d w. w) Suc \<lparr>argv = [], environ = [], files = [], viewed = []\<rparr>) = [d] \<and>
     list_all (joins_two d) (d_edges d) \<and>
     list_all style_attrs_only (d_edges d) \<and>
     list_all (\<lambda>e. attr ''style'' e \<in> set [[], ''dashed'', ''invis'']) (d_edges d) \<and>
     map (\<lambda>e. (ends d e, order_label e)) (filter numbered (d_edges d)) =
       [((Some Organizations, Some Cloudtrail), ''1.''),
        ((Some Cloudtrail, Some Eventbridge), ''2.''),
        ((Some Lambda, Some Organizations), ''3.'')] \<and>
     filter numbered (d_edges d) = filter (flow_between_clusters d) (d_edges d))"
proof -
  have a: "inj Suc" by simp
  show ?thesis by (rule conjI[OF a edges_join_two_nodes_and_flow_is_numbered[OF a]])
qed

text \<open>
  C5. Every node is a member of zero or one cluster and every cluster contains zero or
  more nodes; in this script each of the six nodes belongs to exactly one of the three
  clusters, and no node appears in two clusters. The rendered graph has six nodes with
  six different identifiers, none of them outside a cluster, and three clusters; for
  every node the clusters that hold it are exactly one; and each cluster has two nodes.
\<close>

theorem each_node_in_one_cluster:
  assumes "inj ids"
  shows "\<exists>d. rendered (main be ids w) = [d] \<and>
     length (all_nodes d) = 6 \<and> distinct (map nodeid (all_nodes d)) \<and> d_nodes d = [] \<and>
     length (d_clusters d) = 3 \<and>
     list_all (\<lambda>n. length (clusters_holding d (nodeid n)) = 1) (all_nodes d) \<and>
     map (\<lambda>c. length (members c)) (d_clusters d) = [2, 2, 2]"
proof (intro exI[of _ "built ids"] conjI)
  note distinct_ids = inj_eq[OF assms]
  show "rendered (main be ids w) = [built ids]"
    by (rule rendered_main)
  show "length (all_nodes (built ids)) = 6"
    by (simp add: built_def all_nodes_def)
  show "distinct (map nodeid (all_nodes (built ids)))"
    by (simp add: built_def all_nodes_def distinct_ids)
  show "d_nodes (built ids) = []"
    by (simp add: built_def)
  show "length (d_clusters (built ids)) = 3"
    by (simp add: built_def)
  show "list_all (\<lambda>n. length (clusters_holding (built ids) (nodeid n)) = 1) (all_nodes (built ids))"
    by (simp add: built_def all_nodes_def clusters_holding_def distinct_ids)
  show "map (\<lambda>c. length (members c)) (d_clusters (built ids)) = [2, 2, 2]"
    by (simp add: built_def)
qed

theorem each_node_in_one_cluster_witness:
  "inj Suc \<and>
   (\<exists>d. rendered (main (\<lambda>d w. w) Suc \<lparr>argv = [], environ = [], files = [], viewed = []\<rparr>) = [d] \<and>
     length (all_nodes d) = 6 \<and> distinct (map nodeid (all_nodes d)) \<and> d_nodes d = [] \<and>
     length (d_clusters d) = 3 \<and>
     list_all (\<lambda>n. length (clusters_holding d (nodeid n)) = 1) (all_nodes d) \<and>
     map (\<lambda>c. length (members c)) (d_clusters d) = [2, 2, 2])"
proof -
  have a: "inj Suc" by simp
  show ?thesis by (rule conjI[OF a each_node_in_one_cluster[OF a]])
qed

text \<open>
  C6. The script declares exactly two invisible edges, New Account to CloudTrail and S3
  to EventBridge; they are layout hints only: undirected, unlabeled, styled "invis", and
  they add no flow connection. In the rendered graph the edges of style invis are two,
  between those nodes; each has no attribute but its style and the direction none; and
  the flow of the graph (the pairs its directed edges connect) is the same without them.
\<close>

theorem invisible_edges_are_layout_hints:
  assumes "inj ids"
  shows "\<exists>d. rendered (main be ids w) = [d] \<and>
     map (ends d) (filter invisible (d_edges d)) =
       [(Some OrganizationsAccount, Some Cloudtrail), (Some S3, Some Eventbridge)] \<and>
     list_all (\<lambda>e. undirected e \<and> attr ''label'' e = [] \<and>
                   e_attrs e = [(''style'', ''invis''), (''dir'', ''none'')])
       (filter invisible (d_edges d)) \<and>
     flow (without_invisible d) = flow d"
proof (intro exI[of _ "built ids"] conjI)
  note distinct_ids = inj_eq[OF assms]
  show "rendered (main be ids w) = [built ids]"
    by (rule rendered_main)
  show "map (ends (built ids)) (filter invisible (d_edges (built ids))) =
       [(Some OrganizationsAccount, Some Cloudtrail), (Some S3, Some Eventbridge)]"
    by (simp add: built_def invisible_def attr_def ends_def node_at_def all_nodes_def distinct_ids)
  show "list_all (\<lambda>e. undirected e \<and> attr ''label'' e = [] \<and>
                   e_attrs e = [(''style'', ''invis''), (''dir'', ''none'')])
       (filter invisible (d_edges (built ids)))"
    by (simp add: built_def invisible_def undirected_def attr_def)
  show "flow (without_invisible (built ids)) = flow (built ids)"
    by (simp add: built_def flow_def without_invisible_def invisible_def directed_def attr_def)
qed

theorem invisible_edges_are_layout_hints_witness:
  "inj Suc \<and>
   (\<exists>d. rendered (main (\<lambda>d w. w) Suc \<lparr>argv = [], environ = [], files = [], viewed = []\<rparr>) = [d] \<and>
     map (ends d) (filter invisible (d_edges d)) =
       [(Some OrganizationsAccount, Some Cloudtrail), (Some S3, Some Eventbridge)] \<and>
     list_all (\<lambda>e. undirected e \<and> attr ''label'' e = [] \<and>
                   e_attrs e = [(''style'', ''invis''), (''dir'', ''none'')])
       (filter invisible (d_edges d)) \<and>
     flow (without_invisible d) = flow d)"
proof -
  have a: "inj Suc" by simp
  show ?thesis by (rule conjI[OF a invisible_edges_are_layout_hints[OF a]])
qed

text \<open>
  C7. The only observable side effect of the script is writing one image file; no other
  file, environment state or external resource is created or modified. With the backend
  of the spec, the world after the run is the world before it with that one file
  written, and nothing else changed.
\<close>

theorem only_effect_is_the_image:
  "\<exists>s. main (export_image image_name) ids w = Inr s \<and>
       os s = w\<lparr>files := files w @ [image_name title]\<rparr>"
  by (simp add: main_final export_image_def built_def title_def)

text \<open>
  C8. The script runs to completion in one pass: a straight-line sequence of statements,
  with no loop and no recursion, that terminates on every run. Whatever the backend, the
  identifiers and the world, the run ends normally, with no exception; the script is
  twenty-two statements, and the run goes through each of them exactly once.
\<close>

theorem script_runs_to_completion:
  "(\<exists>s. main be ids w = Inr s) \<and> length (script be ids) = 22 \<and>
   length (states (script be ids) (initial w)) = Suc (length (script be ids))"
proof (intro conjI)
  show ex: "\<exists>s. main be ids w = Inr s"
    by (simp add: main_final)
  show "length (script be ids) = 22"
    by (simp add: script_def)
  from ex obtain s where "run (script be ids) (initial w) = Inr s"
    unfolding main_def by blast
  then show "length (states (script be ids) (initial w)) = Suc (length (script be ids))"
    by (simp add: states_length)
qed

text \<open>
  C9. The diagram is constructed with \<^verbatim>\<open>show=False\<close> and \<^verbatim>\<open>direction="LR"\<close>:
  rendering writes the image file without opening a viewer, and the layout direction is
  left to right on every run. The graph given to the renderer has the show flag off and
  the rank direction LR, whatever the backend, the identifiers and the world; and with
  the backend of the spec the image file is written and nothing is shown in a viewer.
\<close>

theorem not_shown_and_left_to_right:
  "(\<exists>d. rendered (main be ids w) = [d] \<and> \<not> d_show d \<and> d_rankdir d = ''LR'') \<and>
   (\<exists>s. main (export_image image_name) ids w = Inr s \<and>
        files (os s) = files w @ [image_name title] \<and> viewed (os s) = viewed w)"
proof (intro conjI)
  show "\<exists>d. rendered (main be ids w) = [d] \<and> \<not> d_show d \<and> d_rankdir d = ''LR''"
    by (simp add: rendered_main built_def)
  show "\<exists>s. main (export_image image_name) ids w = Inr s \<and>
        files (os s) = files w @ [image_name title] \<and> viewed (os s) = viewed w"
    by (simp add: main_final export_image_def built_def title_def)
qed

text \<open>
  C10. The four directed edges form a single cycle through the clusters: Organizations
  to CloudTrail ("1. Record Org Events"), CloudTrail to EventBridge ("2. Forward
  AcceptHandshake"), EventBridge to Lambda ("Trigger") and Lambda back to Organizations
  ("3. Apply SCP Policies"); every other edge is undirected. In the rendered graph the
  directed edges are these four, with these labels (read on one line), all drawn
  forward; taken in the order second, third, first, fourth of their declaration they
  are a cycle; their tails lie in all three clusters; and the other four edges have the
  direction none.
\<close>

theorem directed_edges_form_one_cycle:
  assumes "inj ids"
  shows "\<exists>d. rendered (main be ids w) = [d] \<and>
     map (\<lambda>e. (ends d e, one_line (attr ''label'' e))) (filter directed (d_edges d)) =
       [((Some Eventbridge, Some Lambda), ''Trigger''),
        ((Some Organizations, Some Cloudtrail), ''1. Record Org Events''),
        ((Some Cloudtrail, Some Eventbridge), ''2. Forward AcceptHandshake''),
        ((Some Lambda, Some Organizations), ''3. Apply SCP Policies'')] \<and>
     cycle (map (\<lambda>k. flow d ! k) [1, 2, 0, 3]) \<and> length (flow d) = 4 \<and>
     list_all (\<lambda>e. attr ''dir'' e = ''forward'') (filter directed (d_edges d)) \<and>
     set (map (\<lambda>e. cluster_of d (tail_id e)) (filter directed (d_edges d))) =
       set (map (\<lambda>c. Some (c_label c)) (d_clusters d)) \<and>
     list_all undirected (filter (\<lambda>e. \<not> directed e) (d_edges d)) \<and>
     length (filter (\<lambda>e. \<not> directed e) (d_edges d)) = 4"
proof (intro exI[of _ "built ids"] conjI)
  note distinct_ids = inj_eq[OF assms]
  show "rendered (main be ids w) = [built ids]"
    by (rule rendered_main)
  show "map (\<lambda>e. (ends (built ids) e, one_line (attr ''label'' e)))
          (filter directed (d_edges (built ids))) =
       [((Some Eventbridge, Some Lambda), ''Trigger''),
        ((Some Organizations, Some Cloudtrail), ''1. Record Org Events''),
        ((Some Cloudtrail, Some Eventbridge), ''2. Forward AcceptHandshake''),
        ((Some Lambda, Some Organizations), ''3. Apply SCP Policies'')]"
    by (simp add: built_def directed_def attr_def one_line_def ends_def node_at_def
        all_nodes_def distinct_ids)
  have fl: "flow (built ids) = [(ids 4, ids 5), (ids 0, ids 2), (ids 2, ids 4), (ids 5, ids 0)]"
    by (simp add: built_def flow_def directed_def attr_def)
  show "cycle (map (\<lambda>k. flow (built ids) ! k) [1, 2, 0, 3])"
    by (simp add: fl cycle_def distinct_ids)
  show "length (flow (built ids)) = 4"
    by (simp add: fl)
  show "list_all (\<lambda>e. attr ''dir'' e = ''forward'') (filter directed (d_edges (built ids)))"
    by (simp add: built_def directed_def attr_def)
  show "set (map (\<lambda>e. cluster_of (built ids) (tail_id e)) (filter directed (d_edges (built ids)))) =
       set (map (\<lambda>c. Some (c_label c)) (d_clusters (built ids)))"
    by (auto simp add: built_def directed_def attr_def cluster_of_def distinct_ids)
  show "list_all undirected (filter (\<lambda>e. \<not> directed e) (d_edges (built ids)))"
    by (simp add: built_def directed_def undirected_def attr_def)
  show "length (filter (\<lambda>e. \<not> directed e) (d_edges (built ids))) = 4"
    by (simp add: built_def directed_def attr_def)
qed

theorem directed_edges_form_one_cycle_witness:
  "inj Suc \<and>
   (\<exists>d. rendered (main (\<lambda>d w. w) Suc \<lparr>argv = [], environ = [], files = [], viewed = []\<rparr>) = [d] \<and>
     map (\<lambda>e. (ends d e, one_line (attr ''label'' e))) (filter directed (d_edges d)) =
       [((Some Eventbridge, Some Lambda), ''Trigger''),
        ((Some Organizations, Some Cloudtrail), ''1. Record Org Events''),
        ((Some Cloudtrail, Some Eventbridge), ''2. Forward AcceptHandshake''),
        ((Some Lambda, Some Organizations), ''3. Apply SCP Policies'')] \<and>
     cycle (map (\<lambda>k. flow d ! k) [1, 2, 0, 3]) \<and> length (flow d) = 4 \<and>
     list_all (\<lambda>e. attr ''dir'' e = ''forward'') (filter directed (d_edges d)) \<and>
     set (map (\<lambda>e. cluster_of d (tail_id e)) (filter directed (d_edges d))) =
       set (map (\<lambda>c. Some (c_label c)) (d_clusters d)) \<and>
     list_all undirected (filter (\<lambda>e. \<not> directed e) (d_edges d)) \<and>
     length (filter (\<lambda>e. \<not> directed e) (d_edges d)) = 4)"
proof -
  have a: "inj Suc" by simp
  show ?thesis by (rule conjI[OF a directed_edges_form_one_cycle[OF a]])
qed

end
